theory Spec2Isabelle
  imports Main "HOL-Library.Word"
begin

section \<open>Python values\<close>

text \<open>
  A Python \<open>str\<close> is modelled as a \<open>string\<close> whose characters stand for the code points
  U+0000 .. U+00FF (every literal of the program is ASCII). An exception is a value
  carrying the text that \<open>str(e)\<close> prints; every exception of the model is an instance of
  \<open>Exception\<close>, which is what the handlers of the program catch. \<open>bytes\<close> is a list of
  8-bit words.
\<close>

datatype exn = Exception (msg: string)

type_synonym byte = "8 word"

text \<open>
  \<open>str.isspace\<close> and \<open>str.isdigit\<close> on the code points below 256. Python's white space
  there is TAB, LF, VT, FF, CR, the separators FS, GS, RS, US, the space, NEL (U+0085) and the
  no-break space (U+00A0); its digits are \<open>0\<close> .. \<open>9\<close> and the superscripts
  U+00B2, U+00B3, U+00B9, which \<open>isdigit\<close> accepts although they are no decimal digits.
\<close>

definition str_isspace :: "char \<Rightarrow> bool" where
  "str_isspace c =
     (let n = (of_char c :: nat)
      in (9 \<le> n \<and> n \<le> 13) \<or> (28 \<le> n \<and> n \<le> 32) \<or> n = 133 \<or> n = 160)"

definition str_isdigit :: "char \<Rightarrow> bool" where
  "str_isdigit c =
     (let n = (of_char c :: nat)
      in (48 \<le> n \<and> n \<le> 57) \<or> n = 178 \<or> n = 179 \<or> n = 185)"


text \<open>\<open>s.strip()\<close>: leading and trailing white space removed.\<close>

definition str_strip :: "string \<Rightarrow> string" where
  "str_strip s = rev (dropWhile str_isspace (rev (dropWhile str_isspace s)))"

text \<open>\<open>s.split(sep)\<close> for a one-character separator: never the empty list.\<close>

fun str_split :: "char \<Rightarrow> string \<Rightarrow> string list" where
  "str_split sep [] = [[]]"
| "str_split sep (c # cs) =
     (if c = sep then [] # str_split sep cs
      else (case str_split sep cs of
              [] \<Rightarrow> [[c]]
            | l # ls \<Rightarrow> (c # l) # ls))"

text \<open>\<open>sep.join(xs)\<close>: the separator is written before every item but the first.\<close>

fun join_rest :: "string \<Rightarrow> string list \<Rightarrow> string" where
  "join_rest sep [] = []"
| "join_rest sep (x # xs) = sep @ x @ join_rest sep xs"

fun str_join :: "string \<Rightarrow> string list \<Rightarrow> string" where
  "str_join sep [] = []"
| "str_join sep (x # xs) = x @ join_rest sep xs"

text \<open>\<open>base64.b64encode(bs).decode('utf-8')\<close>: three bytes give four characters.\<close>

definition b64_alphabet :: string where
  "b64_alphabet = ''ABCDEFGHIJKLMNOPQRSTUVWXYZabcdefghijklmnopqrstuvwxyz0123456789+/''"

definition b64_char :: "nat \<Rightarrow> char" where
  "b64_char n = b64_alphabet ! (n mod 64)"

fun b64encode :: "byte list \<Rightarrow> string" where
  "b64encode [] = []"
| "b64encode [a] =
     (let n = unat a * 65536
      in [b64_char (n div 262144), b64_char (n div 4096), CHR ''='', CHR ''=''])"
| "b64encode [a, b] =
     (let n = unat a * 65536 + unat b * 256
      in [b64_char (n div 262144), b64_char (n div 4096), b64_char (n div 64), CHR ''=''])"
| "b64encode (a # b # c # bs) =
     (let n = unat a * 65536 + unat b * 256 + unat c
      in [b64_char (n div 262144), b64_char (n div 4096), b64_char (n div 64), b64_char n]
         @ b64encode bs)"

section \<open>What the program does to the outside world\<close>

text \<open>
  Every call to an external service, every access to the local file system and every
  \<open>print\<close> is an event; a function returns the events it caused, in order, beside its
  value. What a service answers is a parameter of the model: the answer to each call in the
  order the calls are made, so the model covers every behaviour of the services.
\<close>

datatype event =
    Intro_chain string string
  | Question_chain string
  | Tts_generate_content string
  | Upload_file string
  | Sleep nat
  | Get_file string
  | Generate_content string
  | Delete_file string
  | Evaluation_chain string string
  | Open_wb string
  | Read_video
  | Write_buffer string "byte list"
  | Path_exists string
  | Remove string
  | Print string

section \<open>services/ai\_services.py\<close>

subsection \<open>text\_to\_speech\<close>

definition text_to_speech :: "exn + byte list \<Rightarrow> string \<Rightarrow> string option \<times> event list" where
  "text_to_speech tts text =
     (case tts of
        Inr audio_content \<Rightarrow> (Some (b64encode audio_content), [Tts_generate_content text])
      | Inl e \<Rightarrow>
          (None,
           [Tts_generate_content text,
            Print ''\<newline>--- TTS WARNING ---'',
            Print (''Text-to-speech generation failed: '' @ msg e),
            Print ''The interview will continue without the voice greeting.'',
            Print ''-------------------\<newline>'']))"

subsection \<open>generate\_interview\_content\<close>

record generated_content =
  introduction :: string
  questions :: "string list"
  greetingAudio :: "string option"

text \<open>
  The answers of the language model and of the speech model. When both text generations
  raise, \<open>asyncio.gather\<close> raises whichever exception arrives first; the order is the
  scheduler's and is a parameter.
\<close>

record ai_env =
  intro_result :: "exn + string"
  questions_result :: "exn + string"
  intro_raises_first :: bool
  tts_result :: "exn + byte list"

definition gather :: "bool \<Rightarrow> exn + 'a \<Rightarrow> exn + 'b \<Rightarrow> exn + ('a \<times> 'b)" where
  "gather first_wins a b =
     (case a of
        Inr x \<Rightarrow> (case b of Inr y \<Rightarrow> Inr (x, y) | Inl e2 \<Rightarrow> Inl e2)
      | Inl e1 \<Rightarrow> (case b of Inr y \<Rightarrow> Inl e1 | Inl e2 \<Rightarrow> Inl (if first_wins then e1 else e2)))"

text \<open>
  The comprehension
  \<^verbatim>\<open>[q.strip() for q in questions_raw.split('\n') if q.strip() and q.strip()[0].isdigit()]\<close>.
\<close>

definition questions_list :: "string \<Rightarrow> string list" where
  "questions_list questions_raw =
     [str_strip q. q \<leftarrow> str_split (CHR 0x0A) questions_raw,
                   str_strip q \<noteq> [] \<and> str_isdigit (str_strip q ! 0)]"

definition generate_interview_content ::
  "ai_env \<Rightarrow> string \<Rightarrow> string \<Rightarrow> (exn + generated_content) \<times> event list" where
  "generate_interview_content env role_title role_description =
     (let tasks = [Intro_chain role_title role_description, Question_chain role_description]
      in case gather (intro_raises_first env) (intro_result env) (questions_result env) of
           Inl e \<Rightarrow> (Inl e, tasks)
         | Inr (intro_text, questions_raw) \<Rightarrow>
             (case text_to_speech (tts_result env) intro_text of
                (greeting_audio_b64, tts_events) \<Rightarrow>
                  (Inr \<lparr>introduction = intro_text,
                        questions = questions_list questions_raw,
                        greetingAudio = greeting_audio_b64\<rparr>,
                   tasks @ tts_events)))"

subsection \<open>transcribe\_video\_file\<close>

record gemini_file =
  name :: string
  state_name :: string

text \<open>
  The answers of the file service during one transcription: to the upload, to the
  \<open>i\<close>-th \<open>get_file\<close>, to the content request (the \<open>text\<close> of its response) and to the
  deletion.
\<close>

record genai_env =
  upload_result :: "exn + gemini_file"
  get_file_result :: "nat \<Rightarrow> exn + gemini_file"
  content_result :: "exn + string"
  delete_result :: "exn option"

text \<open>
  The \<open>while\<close> loop. It has no bound, so it is a partial function: \<open>None\<close> is a loop that
  never ends. It returns the exception that left the loop, if any, the file object last
  bound to \<open>gemini_file\<close> and the events so far.
\<close>

partial_function (option) poll_loop ::
  "(nat \<Rightarrow> exn + gemini_file) \<Rightarrow> nat \<Rightarrow> gemini_file \<Rightarrow> event list
     \<Rightarrow> (exn option \<times> gemini_file \<times> event list) option" where
  "poll_loop get_file i f tr =
     (if state_name f = ''PROCESSING'' then
        (case get_file i of
           Inl e \<Rightarrow> Some (Some e, f, tr @ [Sleep 2, Get_file (name f)])
         | Inr f' \<Rightarrow> poll_loop get_file (Suc i) f' (tr @ [Sleep 2, Get_file (name f)]))
      else Some (None, f, tr))"

text \<open>The rest of the \<open>try\<close> block, after the loop.\<close>

definition try_rest :: "genai_env \<Rightarrow> exn option \<Rightarrow> gemini_file \<Rightarrow> (exn + string) \<times> event list" where
  "try_rest env raised f =
     (case raised of
        Some e \<Rightarrow> (Inl e, [])
      | None \<Rightarrow>
          if state_name f = ''FAILED'' then (Inl (Exception ''Gemini file processing failed.''), [])
          else (content_result env, [Generate_content (name f)]))"

text \<open>
  The \<open>finally\<close> block, entered with a file object bound: an exception of \<open>delete_file\<close>
  replaces the value or the exception of the \<open>try\<close> block.
\<close>

definition finally_delete ::
  "genai_env \<Rightarrow> gemini_file \<Rightarrow> (exn + string) \<times> event list \<Rightarrow> (exn + string) \<times> event list" where
  "finally_delete env f body =
     (case delete_result env of
        None \<Rightarrow> (fst body, snd body @ [Delete_file (name f)])
      | Some d \<Rightarrow> (Inl d, snd body @ [Delete_file (name f)]))"

definition transcribe_video_file ::
  "genai_env \<Rightarrow> string \<Rightarrow> ((exn + string) \<times> event list) option" where
  "transcribe_video_file env video_path =
     (case upload_result env of
        Inl e \<Rightarrow> Some (Inl e, [Upload_file video_path])
      | Inr f0 \<Rightarrow>
          (case poll_loop (get_file_result env) 0 f0 [Upload_file video_path] of
             None \<Rightarrow> None
           | Some (raised, f, tr) \<Rightarrow>
               (case try_rest env raised f of
                  (r, tr') \<Rightarrow> Some (finally_delete env f (r, tr @ tr')))))"

subsection \<open>evaluate\_transcription\<close>

definition no_responses :: string where
  "no_responses = ''No valid responses were submitted for this interview.''"

definition evaluate_transcription ::
  "exn + string \<Rightarrow> string \<Rightarrow> string \<Rightarrow> (exn + string) \<times> event list" where
  "evaluate_transcription evaluation role_title full_transcription =
     (if full_transcription = [] \<or> str_strip full_transcription = [] then (Inr no_responses, [])
      else (evaluation, [Evaluation_chain full_transcription role_title]))"

section \<open>main.py\<close>

text \<open>
  The dictionary \<open>interview_data\<close>: each of its three keys is absent or bound. It starts
  empty.
\<close>

record interview_data =
  role_title :: "string option"
  questions :: "string list option"
  responses :: "string list option"

definition interview_data_init :: interview_data where
  "interview_data_init = \<lparr>role_title = None, questions = None, responses = None\<rparr>"

datatype response =
    Content generated_content
  | Error_500 string
  | Success string
  | Recruiter_view string string

subsection \<open>start\_interview\<close>

definition start_interview ::
  "ai_env \<Rightarrow> interview_data \<Rightarrow> string \<Rightarrow> string \<Rightarrow> response \<times> interview_data \<times> event list" where
  "start_interview env store rt role_description =
     (case generate_interview_content env rt role_description of
        (Inr content, tr) \<Rightarrow>
          (Content content,
           store\<lparr>role_title := Some rt,
                 questions := Some (generated_content.questions content),
                 responses := Some []\<rparr>,
           tr)
      | (Inl e, tr) \<Rightarrow>
          (Error_500 ''Could not generate interview content due to an API error.'',
           store,
           tr @ [Print (''ERROR in /start_interview: '' @ msg e)]))"

subsection \<open>submit\_response\<close>

text \<open>The uploaded video and the answers of the local file system.\<close>

record upload =
  filename :: string
  read_result :: "exn + byte list"

record fs_env =
  open_result :: "exn option"
  write_result :: "exn option"
  exists_result :: bool
  remove_result :: "exn option"

text \<open>
  \<^verbatim>\<open>interview_data.get('responses', []).append(transcribed_text)\<close>: the list under the key
  grows in place; without the key the text goes to a list that nothing refers to.
\<close>

definition append_response :: "interview_data \<Rightarrow> string \<Rightarrow> interview_data" where
  "append_response store transcribed_text =
     (case responses store of
        None \<Rightarrow> store
      | Some rs \<Rightarrow> store\<lparr>responses := Some (rs @ [transcribed_text])\<rparr>)"

text \<open>The \<open>try\<close> block up to the transcription: the text, or the exception raised.\<close>

definition save_and_transcribe ::
  "fs_env \<Rightarrow> genai_env \<Rightarrow> upload \<Rightarrow> string \<Rightarrow> ((exn + string) \<times> event list) option" where
  "save_and_transcribe fs env video video_path =
     (case open_result fs of
        Some e \<Rightarrow> Some (Inl e, [Open_wb video_path])
      | None \<Rightarrow>
          (case read_result video of
             Inl e \<Rightarrow> Some (Inl e, [Open_wb video_path, Read_video])
           | Inr bytes \<Rightarrow>
               (case write_result fs of
                  Some e \<Rightarrow>
                    Some (Inl e, [Open_wb video_path, Read_video, Write_buffer video_path bytes])
                | None \<Rightarrow>
                    (case transcribe_video_file env video_path of
                       None \<Rightarrow> None
                     | Some (r, tr) \<Rightarrow>
                         Some (r, [Open_wb video_path, Read_video, Write_buffer video_path bytes]
                                  @ tr)))))"

text \<open>
  The \<open>finally\<close> block of the handler: an exception of \<open>os.remove\<close> leaves the handler in
  place of its response.
\<close>

definition finally_remove ::
  "fs_env \<Rightarrow> string \<Rightarrow> response \<Rightarrow> (exn + response) \<times> event list" where
  "finally_remove fs video_path resp =
     (if exists_result fs then
        (case remove_result fs of
           None \<Rightarrow> (Inr resp, [Path_exists video_path, Remove video_path])
         | Some e \<Rightarrow> (Inl e, [Path_exists video_path, Remove video_path]))
      else (Inr resp, [Path_exists video_path]))"

definition submit_response ::
  "fs_env \<Rightarrow> genai_env \<Rightarrow> interview_data \<Rightarrow> upload
     \<Rightarrow> ((exn + response) \<times> interview_data \<times> event list) option" where
  "submit_response fs env store video =
     (let video_path = ''temp_'' @ filename video
      in case save_and_transcribe fs env video video_path of
           None \<Rightarrow> None
         | Some (Inr transcribed_text, tr) \<Rightarrow>
             (case finally_remove fs video_path (Success transcribed_text) of
                (r, tr') \<Rightarrow> Some (r, append_response store transcribed_text, tr @ tr'))
         | Some (Inl e, tr) \<Rightarrow>
             (case finally_remove fs video_path
                     (Error_500 ''Failed to process the video response.'') of
                (r, tr') \<Rightarrow>
                  Some (r, store, tr @ [Print (''ERROR in /submit_response: '' @ msg e)] @ tr')))"

subsection \<open>get\_recruiter\_report\<close>

definition error_message :: string where
  "error_message =
     ''Could not generate the evaluation due to a server error. Please check the logs.''"

definition get_recruiter_report ::
  "exn + string \<Rightarrow> interview_data \<Rightarrow> response \<times> event list" where
  "get_recruiter_report evaluation_result store =
     (let full_transcription =
            str_join [CHR 0x0A, CHR 0x0A] (case responses store of None \<Rightarrow> [] | Some rs \<Rightarrow> rs);
          rt = (case role_title store of None \<Rightarrow> ''N/A'' | Some t \<Rightarrow> t)
      in case evaluate_transcription evaluation_result rt full_transcription of
           (Inr evaluation, tr) \<Rightarrow> (Recruiter_view rt evaluation, tr)
         | (Inl e, tr) \<Rightarrow>
             (Recruiter_view rt error_message,
              tr @ [Print (''ERROR in /recruiter_report: '' @ msg e)]))"

section \<open>The specification's wording\<close>


text \<open>
  The transcript of the report as the specification words it: the responses, in their
  stored order, with a blank line between two of them.
\<close>

fun blank_line_concat :: "string list \<Rightarrow> string" where
  "blank_line_concat [] = []"
| "blank_line_concat [r] = r"
| "blank_line_concat (r # r' # rs) = r @ ''\<newline>\<newline>'' @ blank_line_concat (r' # rs)"

section \<open>Scripted services and sequences of requests\<close>

text \<open>
  A service whose answers are read from a list, and \<open>rest\<close> once the list is used up.
\<close>

definition scripted :: "'a list \<Rightarrow> 'a \<Rightarrow> nat \<Rightarrow> 'a" where
  "scripted answers rest i = (if i < length answers then answers ! i else rest)"

text \<open>
  The events of the polling loop.
\<close>

fun is_poll_event :: "event \<Rightarrow> bool" where
  "is_poll_event (Sleep n) = True"
| "is_poll_event (Get_file h) = True"
| "is_poll_event ev = False"

text \<open>
  The three endpoints that touch \<open>interview_data\<close>, each request with the answers the
  services give while it is handled. The store after a request, and after a sequence of
  requests handled one after the other; \<open>None\<close> when a request never returns.
\<close>

datatype request =
    Start_interview ai_env string string
  | Submit_response fs_env genai_env upload
  | Recruiter_report "exn + string"

definition handle_request :: "interview_data \<Rightarrow> request \<Rightarrow> interview_data option" where
  "handle_request store req =
     (case req of
        Start_interview env rt role_description \<Rightarrow>
          Some (fst (snd (start_interview env store rt role_description)))
      | Submit_response fs env video \<Rightarrow>
          (case submit_response fs env store video of
             None \<Rightarrow> None
           | Some (r, store', tr) \<Rightarrow> Some store')
      | Recruiter_report evaluation_result \<Rightarrow> Some store)"

fun serve :: "interview_data \<Rightarrow> request list \<Rightarrow> interview_data option" where
  "serve store [] = Some store"
| "serve store (req # reqs) =
     (case handle_request store req of
        None \<Rightarrow> None
      | Some store' \<Rightarrow> serve store' reqs)"

text \<open>
  A request that is a \<open>start_interview\<close> whose content generation does not raise.
\<close>

definition start_succeeds :: "request \<Rightarrow> bool" where
  "start_succeeds req =
     (case req of
        Start_interview env rt role_description \<Rightarrow>
          (case fst (generate_interview_content env rt role_description) of
             Inr content \<Rightarrow> True
           | Inl e \<Rightarrow> False)
      | Submit_response fs env video \<Rightarrow> False
      | Recruiter_report evaluation_result \<Rightarrow> False)"

section \<open>Strings\<close>

text \<open>The string functions of the model on examples computed with Python.\<close>

lemma b64encode_examples:
  "b64encode [77, 97, 110] = ''TWFu''"
  "b64encode [77, 97] = ''TWE=''"
  "b64encode [77] = ''TQ==''"
  "b64encode [255, 254, 253, 0, 16] = ''//79ABA=''"
  by (simp_all add: b64_char_def b64_alphabet_def Let_def)

lemma str_split_examples:
  "str_split (CHR 0x0A) [] = [[]]"
  "str_split (CHR 0x0A) ''a\<newline>\<newline>b\<newline>'' = [''a'', [], ''b'', []]"
  by simp_all

lemma str_strip_examples:
  "str_strip '' \<newline> 1. Why?  '' = ''1. Why?''"
  "str_strip [CHR 0x09, CHR 0xA0, CHR ''a'', CHR 0x0D] = ''a''"
  by (simp_all add: str_strip_def str_isspace_def)



lemma strip_empty_iff: "str_strip s = [] \<longleftrightarrow> (\<forall>c\<in>set s. str_isspace c)"
proof -
  let ?xs = "dropWhile str_isspace s"
  have a: "str_strip s = [] \<longleftrightarrow> (\<forall>c\<in>set ?xs. str_isspace c)"
    by (simp add: str_strip_def dropWhile_eq_Nil_conv)
  have b: "(\<forall>c\<in>set ?xs. str_isspace c) \<longleftrightarrow> ?xs = []"
  proof
    assume all: "\<forall>c\<in>set ?xs. str_isspace c"
    show "?xs = []"
    proof (rule ccontr)
      assume ne: "?xs \<noteq> []"
      then have "\<not> str_isspace (hd ?xs)" by (rule hd_dropWhile)
      moreover from ne have "hd ?xs \<in> set ?xs" by simp
      ultimately show False using all by blast
    qed
  qed (auto dest: set_dropWhileD)
  show ?thesis by (simp only: a b dropWhile_eq_Nil_conv)
qed










section \<open>Properties of generate\_interview\_content and start\_interview\<close>

lemma gather_fails:
  "isl a \<or> isl b \<Longrightarrow> \<exists>e. gather w a b = Inl e \<and> (a = Inl e \<or> b = Inl e)"
  by (cases a; cases b) (auto simp: gather_def)

text \<open>
  C3. If the introduction call or the question call raises, the content generation raises
  the exception of one of them (no speech synthesis is attempted), \<open>start_interview\<close>
  answers with status 500, and \<open>interview_data\<close> is the store it was before: role title,
  questions and responses keep their values.
\<close>

theorem start_interview_failure_keeps_store:
  assumes "isl (intro_result env) \<or> isl (questions_result env)"
  shows "\<exists>e. (intro_result env = Inl e \<or> questions_result env = Inl e)
             \<and> generate_interview_content env rt role_description
                 = (Inl e, [Intro_chain rt role_description, Question_chain role_description])
             \<and> start_interview env store rt role_description
                 = (Error_500 ''Could not generate interview content due to an API error.'',
                    store,
                    [Intro_chain rt role_description, Question_chain role_description,
                     Print (''ERROR in /start_interview: '' @ msg e)])"
proof -
  from gather_fails [OF assms]
  obtain e where g: "gather (intro_raises_first env) (intro_result env) (questions_result env) = Inl e"
    and w: "intro_result env = Inl e \<or> questions_result env = Inl e" by blast
  from g have c: "generate_interview_content env rt role_description
                 = (Inl e, [Intro_chain rt role_description, Question_chain role_description])"
    by (simp add: generate_interview_content_def)
  then have "start_interview env store rt role_description
                 = (Error_500 ''Could not generate interview content due to an API error.'',
                    store,
                    [Intro_chain rt role_description, Question_chain role_description,
                     Print (''ERROR in /start_interview: '' @ msg e)])"
    by (simp add: start_interview_def)
  with w c show ?thesis by blast
qed

text \<open>
  The theorem where the question call raises over a store that holds an earlier interview.
\<close>

theorem start_interview_failure_keeps_store_witness:
  "start_interview
     \<lparr>intro_result = Inr ''Welcome.'', questions_result = Inl (Exception ''quota exceeded''),
      intro_raises_first = True, tts_result = Inr []\<rparr>
     \<lparr>role_title = Some ''Data Analyst'', questions = Some [''1. Why SQL?''],
      responses = Some [''Because.'']\<rparr>
     ''Backend Engineer'' ''Build APIs''
   = (Error_500 ''Could not generate interview content due to an API error.'',
      \<lparr>role_title = Some ''Data Analyst'', questions = Some [''1. Why SQL?''],
       responses = Some [''Because.'']\<rparr>,
      [Intro_chain ''Backend Engineer'' ''Build APIs'', Question_chain ''Build APIs'',
       Print ''ERROR in /start_interview: quota exceeded''])"
  using start_interview_failure_keeps_store
    [of "\<lparr>intro_result = Inr ''Welcome.'', questions_result = Inl (Exception ''quota exceeded''),
          intro_raises_first = True, tts_result = Inr []\<rparr>"
        "''Backend Engineer''" "''Build APIs''"
        "\<lparr>role_title = Some ''Data Analyst'', questions = Some [''1. Why SQL?''],
          responses = Some [''Because.'']\<rparr>"]
  by auto

text \<open>
  C4. When both text calls return, an exception of the speech synthesis does not leave
  \<open>generate_interview_content\<close>: it returns the introduction and the parsed questions
  with no greeting audio, and the failure is printed.
\<close>

theorem generate_survives_tts_failure:
  assumes "intro_result env = Inr intro_text"
      and "questions_result env = Inr questions_raw"
      and "tts_result env = Inl e"
  shows "generate_interview_content env rt role_description
         = (Inr \<lparr>introduction = intro_text,
                 questions = questions_list questions_raw,
                 greetingAudio = None\<rparr>,
            [Intro_chain rt role_description, Question_chain role_description,
             Tts_generate_content intro_text,
             Print ''\<newline>--- TTS WARNING ---'',
             Print (''Text-to-speech generation failed: '' @ msg e),
             Print ''The interview will continue without the voice greeting.'',
             Print ''-------------------\<newline>''])"
  using assms by (simp add: generate_interview_content_def gather_def text_to_speech_def)

text \<open>
  The theorem where the speech model does not exist.
\<close>

theorem generate_survives_tts_failure_witness:
  "fst (generate_interview_content
     \<lparr>intro_result = Inr ''Welcome.'', questions_result = Inr ''1. Why?\<newline>2. How?'',
      intro_raises_first = False, tts_result = Inl (Exception ''404 model not found'')\<rparr>
     ''Backend Engineer'' ''Build APIs'')
   = Inr \<lparr>introduction = ''Welcome.'', questions = [''1. Why?'', ''2. How?''],
          greetingAudio = None\<rparr>"
proof -
  have q: "questions_list ''1. Why?\<newline>2. How?'' = [''1. Why?'', ''2. How?'']"
    by (simp add: questions_list_def str_strip_def str_isspace_def str_isdigit_def)
  show ?thesis
    using generate_survives_tts_failure
      [of "\<lparr>intro_result = Inr ''Welcome.'', questions_result = Inr ''1. Why?\<newline>2. How?'',
            intro_raises_first = False, tts_result = Inl (Exception ''404 model not found'')\<rparr>"
          "''Welcome.''" "''1. Why?\<newline>2. How?''" "Exception ''404 model not found''"
          "''Backend Engineer''" "''Build APIs''"]
    by (simp add: q)
qed

section \<open>Properties of transcribe\_video\_file\<close>

text \<open>
  Whatever the loop returns, it only added polling events, and the file object it ends with
  has the name of the one it started with when \<open>get_file\<close> answers with the file it was
  asked for.
\<close>

lemma poll_loop_sound:
  assumes "poll_loop g i f tr = Some y"
  shows "(\<exists>evs. snd (snd y) = tr @ evs \<and> list_all is_poll_event evs)
         \<and> ((\<forall>j h. g j = Inr h \<longrightarrow> name h = name f) \<longrightarrow> name (fst (snd y)) = name f)"
  using assms
proof (induction rule: poll_loop.raw_induct [rotated 1, consumes 1])
  case (1 loop g i f tr y)
  show ?case
  proof (cases "state_name f = ''PROCESSING''")
    case False
    with 1(2) have "y = (None, f, tr)" by simp
    then show ?thesis by simp
  next
    case True
    show ?thesis
    proof (cases "g i")
      case (Inl e)
      with True 1(2) have "y = (Some e, f, tr @ [Sleep 2, Get_file (name f)])" by simp
      then show ?thesis by simp
    next
      case (Inr h)
      with True 1(2) have run: "loop g (Suc i) h (tr @ [Sleep 2, Get_file (name f)]) = Some y"
        by simp
      from 1(1) [OF run] obtain evs where
        m: "snd (snd y) = (tr @ [Sleep 2, Get_file (name f)]) @ evs" "list_all is_poll_event evs"
        and n: "(\<forall>j h'. g j = Inr h' \<longrightarrow> name h' = name h) \<longrightarrow> name (fst (snd y)) = name h"
        by blast
      from m have "snd (snd y) = tr @ ([Sleep 2, Get_file (name f)] @ evs)
                   \<and> list_all is_poll_event ([Sleep 2, Get_file (name f)] @ evs)" by simp
      then have a: "\<exists>evs. snd (snd y) = tr @ evs \<and> list_all is_poll_event evs" by blast
      have b: "(\<forall>j h. g j = Inr h \<longrightarrow> name h = name f) \<longrightarrow> name (fst (snd y)) = name f"
      proof
        assume all: "\<forall>j h. g j = Inr h \<longrightarrow> name h = name f"
        with Inr have hf: "name h = name f" by blast
        with all have "\<forall>j h'. g j = Inr h' \<longrightarrow> name h' = name h" by simp
        with n hf show "name (fst (snd y)) = name f" by simp
      qed
      from a b show ?thesis ..
    qed
  qed
qed

text \<open>
  The loop returns when the service shows a state other than \<open>PROCESSING\<close> after
  finitely many polls: \<open>f # fs\<close> are the file objects seen, the upload's first.
\<close>

lemma poll_loop_script:
  assumes "\<forall>j<length fs. g (i + j) = Inr (fs ! j)"
      and "\<forall>h\<in>set (butlast (f # fs)). state_name h = ''PROCESSING''"
      and "state_name (last (f # fs)) \<noteq> ''PROCESSING''"
  shows "poll_loop g i f tr
         = Some (None, last (f # fs),
                 tr @ concat (map (\<lambda>h. [Sleep 2, Get_file (name h)]) (butlast (f # fs))))"
  using assms
proof (induction fs arbitrary: i f tr)
  case Nil
  then show ?case by (subst poll_loop.simps) simp
next
  case (Cons h fs)
  from Cons.prems(1) have g0: "g i = Inr h" by force
  from Cons.prems(2) have pf: "state_name f = ''PROCESSING''" by simp
  have p1: "\<forall>j<length fs. g (Suc i + j) = Inr (fs ! j)"
  proof (intro allI impI)
    fix j assume "j < length fs"
    then have "Suc j < length (h # fs)" by simp
    with Cons.prems(1) have "g (i + Suc j) = Inr ((h # fs) ! Suc j)" by blast
    then show "g (Suc i + j) = Inr (fs ! j)" by simp
  qed
  from Cons.prems(2) have p2: "\<forall>x\<in>set (butlast (h # fs)). state_name x = ''PROCESSING''" by simp
  from Cons.prems(3) have p3: "state_name (last (h # fs)) \<noteq> ''PROCESSING''" by simp
  have "poll_loop g i f tr = poll_loop g (Suc i) h (tr @ [Sleep 2, Get_file (name f)])"
    by (subst poll_loop.simps) (simp add: pf g0)
  also have "\<dots> = Some (None, last (h # fs),
                 (tr @ [Sleep 2, Get_file (name f)])
                 @ concat (map (\<lambda>h. [Sleep 2, Get_file (name h)]) (butlast (h # fs))))"
    by (rule Cons.IH [OF p1 p2 p3])
  finally show ?case by simp
qed

lemma poll_events_only:
  "list_all is_poll_event evs \<Longrightarrow> Delete_file n \<notin> set evs \<and> Print t \<notin> set evs"
  by (auto simp: list_all_iff)

lemma try_rest_events:
  "snd (try_rest env raised f) = [] \<or> snd (try_rest env raised f) = [Generate_content (name f)]"
  by (simp add: try_rest_def split: option.split)

text \<open>
  The shape of every run that got a file object from the upload and returned.
\<close>

lemma transcribe_trace:
  assumes up: "upload_result env = Inr f0"
      and ret: "transcribe_video_file env video_path = Some (r, tr)"
  obtains raised f evs rest where
        "tr = [Upload_file video_path] @ evs @ rest @ [Delete_file (name f)]"
    and "list_all is_poll_event evs"
    and "rest = [] \<or> rest = [Generate_content (name f)]"
    and "(\<forall>j h. get_file_result env j = Inr h \<longrightarrow> name h = name f0) \<longrightarrow> name f = name f0"
    and "r = (case delete_result env of
                Some d \<Rightarrow> Inl d
              | None \<Rightarrow> fst (try_rest env raised f))"
proof -
  from up ret obtain raised f tr1 where
    loop: "poll_loop (get_file_result env) 0 f0 [Upload_file video_path] = Some (raised, f, tr1)"
    and fin: "(r, tr) = finally_delete env f
                 (fst (try_rest env raised f), tr1 @ snd (try_rest env raised f))"
    by (auto simp: transcribe_video_file_def split: option.splits prod.splits)
  from poll_loop_sound [OF loop] obtain evs where
    tr1: "tr1 = [Upload_file video_path] @ evs" and pe: "list_all is_poll_event evs"
    and nm: "(\<forall>j h. get_file_result env j = Inr h \<longrightarrow> name h = name f0) \<longrightarrow> name f = name f0"
    by auto
  define rest where "rest = snd (try_rest env raised f)"
  have rest: "rest = [] \<or> rest = [Generate_content (name f)]"
    unfolding rest_def by (rule try_rest_events)
  from fin tr1 have t: "tr = [Upload_file video_path] @ evs @ rest @ [Delete_file (name f)]"
    by (simp add: finally_delete_def rest_def split: option.splits)
  from fin have res: "r = (case delete_result env of
                    Some d \<Rightarrow> Inl d
                  | None \<Rightarrow> fst (try_rest env raised f))"
    by (simp add: finally_delete_def split: option.splits)
  from t pe rest nm res show thesis by (rule that)
qed

text \<open>
  C1. Whenever the upload succeeded and \<open>transcribe_video_file\<close> returns, by a value or by
  an exception of any origin, its last action was the deletion of the uploaded handle, and it
  requested no other deletion. The handle is identified by its name; \<open>get_file\<close> is taken
  to answer with the file it was asked for.
\<close>

theorem transcribe_deletes_handle:
  assumes up: "upload_result env = Inr f0"
      and names: "\<forall>j h. get_file_result env j = Inr h \<longrightarrow> name h = name f0"
      and ret: "transcribe_video_file env video_path = Some (r, tr)"
  shows "\<exists>pre. tr = pre @ [Delete_file (name f0)] \<and> (\<forall>n. Delete_file n \<notin> set pre)"
proof -
  from up ret obtain raised f evs rest where
    t: "tr = [Upload_file video_path] @ evs @ rest @ [Delete_file (name f)]"
    and pe: "list_all is_poll_event evs"
    and rest: "rest = [] \<or> rest = [Generate_content (name f)]"
    and nm0: "(\<forall>j h. get_file_result env j = Inr h \<longrightarrow> name h = name f0)
              \<longrightarrow> name f = name f0"
    and res: "r = (case delete_result env of
                    Some d \<Rightarrow> Inl d
                  | None \<Rightarrow> fst (try_rest env raised f))"
    by (rule transcribe_trace)
  from nm0 names have nm: "name f = name f0" by (rule mp)
  let ?pre = "[Upload_file video_path] @ evs @ rest"
  from t nm have "tr = ?pre @ [Delete_file (name f0)]" by simp
  moreover have "\<forall>n. Delete_file n \<notin> set ?pre"
    using poll_events_only [OF pe] rest by auto
  ultimately show ?thesis by blast
qed

text \<open>
  The theorem where the second poll raises.
\<close>

theorem transcribe_deletes_handle_witness:
  "transcribe_video_file
     \<lparr>upload_result = Inr \<lparr>name = ''files/v1'', state_name = ''PROCESSING''\<rparr>,
      get_file_result =
        scripted [Inr \<lparr>name = ''files/v1'', state_name = ''PROCESSING''\<rparr>]
                 (Inl (Exception ''503 unavailable'')),
      content_result = Inr ''I build APIs.'', delete_result = None\<rparr>
     ''temp_a.webm''
   = Some (Inl (Exception ''503 unavailable''),
           [Upload_file ''temp_a.webm'', Sleep 2, Get_file ''files/v1'',
            Sleep 2, Get_file ''files/v1''] @ [Delete_file ''files/v1''])"
proof -
  let ?env = "\<lparr>upload_result = Inr \<lparr>name = ''files/v1'', state_name = ''PROCESSING''\<rparr>,
      get_file_result =
        scripted [Inr \<lparr>name = ''files/v1'', state_name = ''PROCESSING''\<rparr>]
                 (Inl (Exception ''503 unavailable'')),
      content_result = Inr ''I build APIs.'', delete_result = None\<rparr>"
  have up: "upload_result ?env = Inr \<lparr>name = ''files/v1'', state_name = ''PROCESSING''\<rparr>"
    by simp
  have names: "\<forall>j h. get_file_result ?env j = Inr h
                 \<longrightarrow> name h = name \<lparr>name = ''files/v1'', state_name = ''PROCESSING''\<rparr>"
    by (auto simp: scripted_def split: if_splits)
  have ret: "transcribe_video_file ?env ''temp_a.webm''
     = Some (Inl (Exception ''503 unavailable''),
           [Upload_file ''temp_a.webm'', Sleep 2, Get_file ''files/v1'',
            Sleep 2, Get_file ''files/v1'', Delete_file ''files/v1''])"
    by (simp add: transcribe_video_file_def poll_loop.simps scripted_def try_rest_def
                  finally_delete_def)
  from transcribe_deletes_handle [OF up names ret] ret show ?thesis by simp
qed

text \<open>
  C2 (amended). If the deletion of the handle raises, its exception is what
  \<open>transcribe_video_file\<close> raises, in place of the transcript or of the exception of the
  \<open>try\<close> block, and the function prints nothing.
\<close>

theorem deletion_failure_replaces_result:
  assumes up: "upload_result env = Inr f0"
      and del: "delete_result env = Some d"
      and ret: "transcribe_video_file env video_path = Some (r, tr)"
  shows "r = Inl d \<and> (\<forall>t. Print t \<notin> set tr)"
proof -
  from up ret obtain raised f evs rest where
    t: "tr = [Upload_file video_path] @ evs @ rest @ [Delete_file (name f)]"
    and pe: "list_all is_poll_event evs"
    and rest: "rest = [] \<or> rest = [Generate_content (name f)]"
    and nm0: "(\<forall>j h. get_file_result env j = Inr h \<longrightarrow> name h = name f0)
              \<longrightarrow> name f = name f0"
    and res: "r = (case delete_result env of
                    Some d \<Rightarrow> Inl d
                  | None \<Rightarrow> fst (try_rest env raised f))"
    by (rule transcribe_trace)
  from res del have "r = Inl d" by simp
  moreover have "\<forall>t. Print t \<notin> set tr"
    using poll_events_only [OF pe] rest t by auto
  ultimately show ?thesis ..
qed

text \<open>
  The theorem where processing failed and the deletion raises: the exception of the deletion
  is raised, not the one of the failed processing.
\<close>

theorem deletion_failure_replaces_result_witness:
  "transcribe_video_file
     \<lparr>upload_result = Inr \<lparr>name = ''files/v1'', state_name = ''FAILED''\<rparr>,
      get_file_result = scripted [] (Inl (Exception ''404 not found'')),
      content_result = Inr ''I build APIs.'',
      delete_result = Some (Exception ''403 permission denied'')\<rparr>
     ''temp_a.webm''
   = Some (Inl (Exception ''403 permission denied''),
           [Upload_file ''temp_a.webm'', Delete_file ''files/v1''])
   \<and> Print ''403 permission denied''
       \<notin> set [Upload_file ''temp_a.webm'', Delete_file ''files/v1'']"
proof -
  let ?env = "\<lparr>upload_result = Inr \<lparr>name = ''files/v1'', state_name = ''FAILED''\<rparr>,
      get_file_result = scripted [] (Inl (Exception ''404 not found'')),
      content_result = Inr ''I build APIs.'',
      delete_result = Some (Exception ''403 permission denied'')\<rparr>"
  have up: "upload_result ?env = Inr \<lparr>name = ''files/v1'', state_name = ''FAILED''\<rparr>" by simp
  have del: "delete_result ?env = Some (Exception ''403 permission denied'')" by simp
  have ret: "transcribe_video_file ?env ''temp_a.webm''
     = Some (Inl (Exception ''403 permission denied''),
           [Upload_file ''temp_a.webm'', Delete_file ''files/v1''])"
    by (simp add: transcribe_video_file_def poll_loop.simps try_rest_def finally_delete_def)
  from deletion_failure_replaces_result [OF up del ret] ret show ?thesis by blast
qed

text \<open>
  C2 as stated fails: the file is ready, the content request returns a transcript, the
  deletion raises; the caller gets the exception of the deletion and no transcript, and
  nothing is printed.
\<close>

theorem deletion_failure_masks_transcript:
  "transcribe_video_file
     \<lparr>upload_result = Inr \<lparr>name = ''files/v1'', state_name = ''ACTIVE''\<rparr>,
      get_file_result = scripted [] (Inl (Exception ''404 not found'')),
      content_result = Inr ''I build APIs.'',
      delete_result = Some (Exception ''403 permission denied'')\<rparr>
     ''temp_a.webm''
   = Some (Inl (Exception ''403 permission denied''),
           [Upload_file ''temp_a.webm'', Generate_content ''files/v1'',
            Delete_file ''files/v1''])"
  by (simp add: transcribe_video_file_def poll_loop.simps try_rest_def finally_delete_def)

text \<open>
  C5 (amended). Let the states seen be \<open>PROCESSING\<close> up to a last one. Then the loop
  ends and the function returns, whatever the deletion does. If the last state is
  \<open>FAILED\<close>, the function raises: the exception of the failed processing, or the one of
  the deletion if that raises. If it is any other state (the file is ready), the function
  ends as the content request does when the deletion succeeds: with the text of its
  response, which is not inspected and may be empty, or with its exception; when the
  deletion raises, the function raises the exception of the deletion.
\<close>

theorem transcribe_terminal_state:
  assumes up: "upload_result env = Inr f0"
      and polls: "\<forall>j<length fs. get_file_result env j = Inr (fs ! j)"
      and proc: "\<forall>h\<in>set (butlast (f0 # fs)). state_name h = ''PROCESSING''"
      and fin: "state_name (last (f0 # fs)) \<noteq> ''PROCESSING''"
  shows "(state_name (last (f0 # fs)) = ''FAILED'' \<longrightarrow>
            (\<exists>tr. transcribe_video_file env video_path
                   = Some (Inl (case delete_result env of
                                  None \<Rightarrow> Exception ''Gemini file processing failed.''
                                | Some d \<Rightarrow> d), tr)))
       \<and> (state_name (last (f0 # fs)) \<noteq> ''FAILED'' \<longrightarrow>
            (\<exists>tr. transcribe_video_file env video_path
                   = Some (case delete_result env of
                             None \<Rightarrow> content_result env
                           | Some d \<Rightarrow> Inl d, tr)))"
proof -
  from polls have "\<forall>j<length fs. get_file_result env (0 + j) = Inr (fs ! j)" by simp
  from poll_loop_script [OF this proc fin]
  have loop: "poll_loop (get_file_result env) 0 f0 [Upload_file video_path]
         = Some (None, last (f0 # fs),
                 [Upload_file video_path]
                 @ concat (map (\<lambda>h. [Sleep 2, Get_file (name h)]) (butlast (f0 # fs))))" .
  show ?thesis
    by (simp add: transcribe_video_file_def up loop try_rest_def finally_delete_def
             del: last.simps butlast.simps split: option.split)
qed

text \<open>
  The theorem on a sequence that ends ready, on one that ends failed, and on one that ends
  ready with a deletion that raises.
\<close>

theorem transcribe_terminal_state_witness:
  "transcribe_video_file
     \<lparr>upload_result = Inr \<lparr>name = ''files/v1'', state_name = ''PROCESSING''\<rparr>,
      get_file_result =
        scripted [Inr \<lparr>name = ''files/v1'', state_name = ''PROCESSING''\<rparr>,
                  Inr \<lparr>name = ''files/v1'', state_name = ''ACTIVE''\<rparr>]
                 (Inl (Exception ''404 not found'')),
      content_result = Inr ''I build APIs.'', delete_result = None\<rparr>
     ''temp_a.webm''
   = Some (Inr ''I build APIs.'',
           [Upload_file ''temp_a.webm'', Sleep 2, Get_file ''files/v1'',
            Sleep 2, Get_file ''files/v1'', Generate_content ''files/v1'',
            Delete_file ''files/v1''])
   \<and> transcribe_video_file
     \<lparr>upload_result = Inr \<lparr>name = ''files/v1'', state_name = ''PROCESSING''\<rparr>,
      get_file_result =
        scripted [Inr \<lparr>name = ''files/v1'', state_name = ''FAILED''\<rparr>]
                 (Inl (Exception ''404 not found'')),
      content_result = Inr ''I build APIs.'', delete_result = None\<rparr>
     ''temp_a.webm''
   = Some (Inl (Exception ''Gemini file processing failed.''),
           [Upload_file ''temp_a.webm'', Sleep 2, Get_file ''files/v1'',
            Delete_file ''files/v1''])
   \<and> transcribe_video_file
     \<lparr>upload_result = Inr \<lparr>name = ''files/v1'', state_name = ''PROCESSING''\<rparr>,
      get_file_result =
        scripted [Inr \<lparr>name = ''files/v1'', state_name = ''ACTIVE''\<rparr>]
                 (Inl (Exception ''404 not found'')),
      content_result = Inr ''I build APIs.'',
      delete_result = Some (Exception ''403 permission denied'')\<rparr>
     ''temp_a.webm''
   = Some (Inl (Exception ''403 permission denied''),
           [Upload_file ''temp_a.webm'', Sleep 2, Get_file ''files/v1'',
            Generate_content ''files/v1'', Delete_file ''files/v1''])"
proof -
  let ?P = "\<lparr>name = ''files/v1'', state_name = ''PROCESSING''\<rparr>"
  let ?A = "\<lparr>name = ''files/v1'', state_name = ''ACTIVE''\<rparr>"
  let ?F = "\<lparr>name = ''files/v1'', state_name = ''FAILED''\<rparr>"
  let ?ready = "\<lparr>upload_result = Inr ?P,
      get_file_result = scripted [Inr ?P, Inr ?A] (Inl (Exception ''404 not found'')),
      content_result = Inr ''I build APIs.'', delete_result = None\<rparr>"
  let ?failed = "\<lparr>upload_result = Inr ?P,
      get_file_result = scripted [Inr ?F] (Inl (Exception ''404 not found'')),
      content_result = Inr ''I build APIs.'', delete_result = None\<rparr>"
  let ?undeleted = "\<lparr>upload_result = Inr ?P,
      get_file_result = scripted [Inr ?A] (Inl (Exception ''404 not found'')),
      content_result = Inr ''I build APIs.'',
      delete_result = Some (Exception ''403 permission denied'')\<rparr>"
  have r1: "upload_result ?ready = Inr ?P" by simp
  have r2: "\<forall>j<length [?P, ?A]. get_file_result ?ready j = Inr ([?P, ?A] ! j)"
    by (simp add: scripted_def less_Suc_eq)
  have r3: "\<forall>h\<in>set (butlast (?P # [?P, ?A])). state_name h = ''PROCESSING''" by simp
  have r4: "state_name (last (?P # [?P, ?A])) \<noteq> ''PROCESSING''" by simp
  have f1: "upload_result ?failed = Inr ?P" by simp
  have f2: "\<forall>j<length [?F]. get_file_result ?failed j = Inr ([?F] ! j)"
    by (simp add: scripted_def)
  have f3: "\<forall>h\<in>set (butlast (?P # [?F])). state_name h = ''PROCESSING''" by simp
  have f4: "state_name (last (?P # [?F])) \<noteq> ''PROCESSING''" by simp
  have u1: "upload_result ?undeleted = Inr ?P" by simp
  have u2: "\<forall>j<length [?A]. get_file_result ?undeleted j = Inr ([?A] ! j)"
    by (simp add: scripted_def)
  have u3: "\<forall>h\<in>set (butlast (?P # [?A])). state_name h = ''PROCESSING''" by simp
  have u4: "state_name (last (?P # [?A])) \<noteq> ''PROCESSING''" by simp
  have e1: "transcribe_video_file ?ready ''temp_a.webm''
   = Some (Inr ''I build APIs.'',
           [Upload_file ''temp_a.webm'', Sleep 2, Get_file ''files/v1'',
            Sleep 2, Get_file ''files/v1'', Generate_content ''files/v1'',
            Delete_file ''files/v1''])"
    by (simp add: transcribe_video_file_def poll_loop.simps scripted_def try_rest_def
                  finally_delete_def)
  have e2: "transcribe_video_file ?failed ''temp_a.webm''
   = Some (Inl (Exception ''Gemini file processing failed.''),
           [Upload_file ''temp_a.webm'', Sleep 2, Get_file ''files/v1'',
            Delete_file ''files/v1''])"
    by (simp add: transcribe_video_file_def poll_loop.simps scripted_def try_rest_def
                  finally_delete_def)
  have e3: "transcribe_video_file ?undeleted ''temp_a.webm''
   = Some (Inl (Exception ''403 permission denied''),
           [Upload_file ''temp_a.webm'', Sleep 2, Get_file ''files/v1'',
            Generate_content ''files/v1'', Delete_file ''files/v1''])"
    by (simp add: transcribe_video_file_def poll_loop.simps scripted_def try_rest_def
                  finally_delete_def)
  from transcribe_terminal_state [OF r1 r2 r3 r4, of "''temp_a.webm''"]
       transcribe_terminal_state [OF f1 f2 f3 f4, of "''temp_a.webm''"]
       transcribe_terminal_state [OF u1 u2 u3 u4, of "''temp_a.webm''"] e1 e2 e3
  show ?thesis by simp
qed

text \<open>
  C5 as stated fails: on a sequence that ends ready, with a content request that answers
  with the empty text, the function returns the empty text.
\<close>

theorem transcribe_ready_empty_text:
  "transcribe_video_file
     \<lparr>upload_result = Inr \<lparr>name = ''files/v1'', state_name = ''PROCESSING''\<rparr>,
      get_file_result =
        scripted [Inr \<lparr>name = ''files/v1'', state_name = ''ACTIVE''\<rparr>]
                 (Inl (Exception ''404 not found'')),
      content_result = Inr '''', delete_result = None\<rparr>
     ''temp_a.webm''
   = Some (Inr '''',
           [Upload_file ''temp_a.webm'', Sleep 2, Get_file ''files/v1'',
            Generate_content ''files/v1'', Delete_file ''files/v1''])"
  by (simp add: transcribe_video_file_def poll_loop.simps scripted_def try_rest_def
                finally_delete_def)

section \<open>Properties of evaluate\_transcription\<close>

lemma evaluate_blank:
  "evaluate_transcription evaluation rt t =
     (if \<forall>c\<in>set t. str_isspace c then (Inr no_responses, [])
      else (evaluation, [Evaluation_chain t rt]))"
proof (cases "\<forall>c\<in>set t. str_isspace c")
  case True
  then have "str_strip t = []" by (simp only: strip_empty_iff)
  with True show ?thesis by (simp add: evaluate_transcription_def)
next
  case False
  then have "str_strip t \<noteq> []" by (simp only: strip_empty_iff not_False_eq_True)
  moreover from False have "t \<noteq> []" by auto
  ultimately show ?thesis using False by (simp add: evaluate_transcription_def)
qed

text \<open>
  C7. For a transcript that is empty or consists of white space, the fixed text is returned
  and no call is made; for any other transcript exactly one call to the evaluation chain is
  made, with the transcript and the role title, and its outcome is the outcome of the
  function.
\<close>

theorem evaluate_transcription_short_circuit:
  "evaluate_transcription evaluation rt t =
     (if \<forall>c\<in>set t. str_isspace c then (Inr no_responses, [])
      else (evaluation, [Evaluation_chain t rt]))"
proof (cases "str_strip t = []")
  case True
  then have "\<forall>c\<in>set t. str_isspace c" by (simp only: strip_empty_iff)
  with True show ?thesis by (simp add: evaluate_transcription_def)
next
  case False
  then have some: "\<not> (\<forall>c\<in>set t. str_isspace c)" by (simp add: strip_empty_iff)
  then have "t \<noteq> []" by auto
  with False some show ?thesis by (simp add: evaluate_transcription_def)
qed

text \<open>
  The theorem at the empty transcript, at a blank one and at an answer.
\<close>

theorem evaluate_transcription_short_circuit_witness:
  "evaluate_transcription (Inr ''**1. Overall Summary:**'') ''Engineer'' '''' = (Inr no_responses, [])
   \<and> evaluate_transcription (Inr ''**1. Overall Summary:**'') ''Engineer'' '' \<newline> '' = (Inr no_responses, [])
   \<and> evaluate_transcription (Inr ''**1. Overall Summary:**'') ''Engineer'' ''I build APIs.''
       = (Inr ''**1. Overall Summary:**'', [Evaluation_chain ''I build APIs.'' ''Engineer''])"
  using evaluate_transcription_short_circuit [of "Inr ''**1. Overall Summary:**''" "''Engineer''" "''''"]
        evaluate_transcription_short_circuit [of "Inr ''**1. Overall Summary:**''" "''Engineer''" "'' \<newline> ''"]
        evaluate_transcription_short_circuit [of "Inr ''**1. Overall Summary:**''" "''Engineer''" "''I build APIs.''"]
  by (simp add: str_isspace_def)

section \<open>Properties of the endpoints\<close>

lemma join_rest_blank:
  "r @ join_rest ''\<newline>\<newline>'' rs = blank_line_concat (r # rs)"
  by (induction rs arbitrary: r) auto

lemma str_join_blank: "str_join ''\<newline>\<newline>'' rs = blank_line_concat rs"
  by (cases rs) (simp_all add: join_rest_blank)

text \<open>
  C8. The report evaluates the stored responses, concatenated in their stored order with a
  blank line between them, for the stored role title. If the evaluation raises, the page
  shows the fixed message instead and the exception is printed, not raised.
\<close>

theorem get_recruiter_report_behaviour:
  "get_recruiter_report evaluation_result store =
     (let rs = (case responses store of None \<Rightarrow> [] | Some rs \<Rightarrow> rs);
          rt = (case role_title store of None \<Rightarrow> ''N/A'' | Some t \<Rightarrow> t);
          transcript = blank_line_concat rs
      in if \<forall>c\<in>set transcript. str_isspace c then (Recruiter_view rt no_responses, [])
         else (case evaluation_result of
                 Inr text \<Rightarrow> (Recruiter_view rt text, [Evaluation_chain transcript rt])
               | Inl e \<Rightarrow>
                   (Recruiter_view rt error_message,
                    [Evaluation_chain transcript rt,
                     Print (''ERROR in /recruiter_report: '' @ msg e)])))"
  by (simp add: get_recruiter_report_def Let_def evaluate_blank str_join_blank
           del: blank_line_concat.simps split: sum.splits)

text \<open>
  The theorem for two stored responses and an evaluation that raises.
\<close>

theorem get_recruiter_report_behaviour_witness:
  "get_recruiter_report (Inl (Exception ''deadline exceeded''))
     \<lparr>role_title = Some ''Backend Engineer'', questions = Some [''1. Why?'', ''2. How?''],
      responses = Some [''I build APIs.'', ''I led a team.'']\<rparr>
   = (Recruiter_view ''Backend Engineer''
        ''Could not generate the evaluation due to a server error. Please check the logs.'',
      [Evaluation_chain ''I build APIs.\<newline>\<newline>I led a team.'' ''Backend Engineer'',
       Print ''ERROR in /recruiter_report: deadline exceeded''])"
  using get_recruiter_report_behaviour
    [of "Inl (Exception ''deadline exceeded'')"
        "\<lparr>role_title = Some ''Backend Engineer'', questions = Some [''1. Why?'', ''2. How?''],
          responses = Some [''I build APIs.'', ''I led a team.'']\<rparr>"]
  by (simp add: str_isspace_def error_message_def Let_def)

lemma append_response_none: "responses store = None \<Longrightarrow> append_response store t = store"
  by (simp add: append_response_def)

lemma submit_store:
  assumes "submit_response fs env store video = Some (r, store', tr)"
  shows "store' = store \<or> (\<exists>t. store' = append_response store t)"
  using assms
  by (auto simp: submit_response_def Let_def split: option.splits prod.splits sum.splits)

lemma submit_keeps_store:
  assumes "responses store = None"
      and "submit_response fs env store video = Some (r, store', tr)"
  shows "store' = store"
  using submit_store [OF assms(2)] assms(1) by (auto simp: append_response_none)

lemma submit_success:
  assumes "transcribe_video_file env (''temp_'' @ filename video) = Some (Inr t, tr)"
      and "open_result fs = None" and "read_result video = Inr bytes"
      and "write_result fs = None"
      and "exists_result fs \<longrightarrow> remove_result fs = None"
  shows "\<exists>tr'. submit_response fs env store video
                 = Some (Inr (Success t), append_response store t, tr')"
  using assms
  by (cases "exists_result fs")
     (simp_all add: submit_response_def save_and_transcribe_def finally_remove_def Let_def)

text \<open>
  C9. While the store has no \<open>responses\<close> key, a submission whose video is saved and
  transcribed answers with the success status and the transcript and leaves the store as it
  was; a report asked for afterwards finds no response: it shows the fixed text for an
  interview without responses and requests no evaluation.
\<close>

theorem submit_before_start:
  assumes "responses store = None"
      and "transcribe_video_file env (''temp_'' @ filename video) = Some (Inr transcribed_text, tr)"
      and "open_result fs = None" and "read_result video = Inr bytes"
      and "write_result fs = None"
      and "exists_result fs \<longrightarrow> remove_result fs = None"
  shows "\<exists>tr'. submit_response fs env store video
                  = Some (Inr (Success transcribed_text), store, tr')
               \<and> get_recruiter_report evaluation_result store
                  = (Recruiter_view (case role_title store of None \<Rightarrow> ''N/A'' | Some t \<Rightarrow> t)
                       no_responses, [])"
proof -
  from submit_success [OF assms(2-6)] obtain tr' where
    "submit_response fs env store video
       = Some (Inr (Success transcribed_text), append_response store transcribed_text, tr')"
    by blast
  with assms(1) have "submit_response fs env store video
       = Some (Inr (Success transcribed_text), store, tr')"
    by (simp add: append_response_none)
  moreover from assms(1) have "get_recruiter_report evaluation_result store
                  = (Recruiter_view (case role_title store of None \<Rightarrow> ''N/A'' | Some t \<Rightarrow> t)
                       no_responses, [])"
    by (simp add: get_recruiter_report_def evaluate_transcription_def)
  ultimately show ?thesis by blast
qed

text \<open>
  The theorem on the initial store.
\<close>

theorem submit_before_start_witness:
  "submit_response
     \<lparr>open_result = None, write_result = None, exists_result = True, remove_result = None\<rparr>
     \<lparr>upload_result = Inr \<lparr>name = ''files/v1'', state_name = ''ACTIVE''\<rparr>,
      get_file_result = scripted [] (Inl (Exception ''404 not found'')),
      content_result = Inr ''I build APIs.'', delete_result = None\<rparr>
     interview_data_init
     \<lparr>filename = ''a.webm'', read_result = Inr [26, 69, 223, 163]\<rparr>
   = Some (Inr (Success ''I build APIs.''), interview_data_init,
           [Open_wb ''temp_a.webm'', Read_video,
            Write_buffer ''temp_a.webm'' [26, 69, 223, 163],
            Upload_file ''temp_a.webm'', Generate_content ''files/v1'',
            Delete_file ''files/v1'', Path_exists ''temp_a.webm'', Remove ''temp_a.webm''])
   \<and> get_recruiter_report (Inr ''**1. Overall Summary:**'') interview_data_init
     = (Recruiter_view ''N/A'' no_responses, [])"
proof -
  let ?fs = "\<lparr>open_result = None, write_result = None, exists_result = True,
              remove_result = None\<rparr>"
  let ?env = "\<lparr>upload_result = Inr \<lparr>name = ''files/v1'', state_name = ''ACTIVE''\<rparr>,
      get_file_result = scripted [] (Inl (Exception ''404 not found'')),
      content_result = Inr ''I build APIs.'', delete_result = None\<rparr>"
  let ?video = "\<lparr>filename = ''a.webm'', read_result = Inr [26, 69, 223, 163 :: byte]\<rparr>"
  have t: "transcribe_video_file ?env (''temp_'' @ filename ?video)
           = Some (Inr ''I build APIs.'',
                   [Upload_file ''temp_a.webm'', Generate_content ''files/v1'',
                    Delete_file ''files/v1''])"
    by (simp add: transcribe_video_file_def poll_loop.simps try_rest_def finally_delete_def)
  have s: "submit_response ?fs ?env interview_data_init ?video
   = Some (Inr (Success ''I build APIs.''), interview_data_init,
           [Open_wb ''temp_a.webm'', Read_video,
            Write_buffer ''temp_a.webm'' [26, 69, 223, 163],
            Upload_file ''temp_a.webm'', Generate_content ''files/v1'',
            Delete_file ''files/v1'', Path_exists ''temp_a.webm'', Remove ''temp_a.webm''])"
    using t
    by (simp add: submit_response_def save_and_transcribe_def finally_remove_def
                  append_response_def interview_data_init_def Let_def)
  have n: "responses interview_data_init = None" by (simp add: interview_data_init_def)
  from submit_before_start [OF n t, of ?fs "[26, 69, 223, 163]" "Inr ''**1. Overall Summary:**''"]
  have "get_recruiter_report (Inr ''**1. Overall Summary:**'') interview_data_init
     = (Recruiter_view ''N/A'' no_responses, [])"
    by (simp add: interview_data_init_def)
  with s show ?thesis by simp
qed

lemma handle_request_keeps_empty:
  assumes "handle_request store req = Some store'"
      and "\<not> start_succeeds req"
      and "role_title store = None" and "responses store = None"
  shows "store' = store"
proof (cases req)
  case (Start_interview env rt rd)
  with assms(2) obtain e tr where "generate_interview_content env rt rd = (Inl e, tr)"
    by (cases "generate_interview_content env rt rd")
       (auto simp: start_succeeds_def split: sum.splits)
  with assms(1) Start_interview show ?thesis
    by (simp add: handle_request_def start_interview_def)
next
  case (Submit_response fs env video)
  with assms(1) obtain r tr where "submit_response fs env store video = Some (r, store', tr)"
    by (auto simp: handle_request_def split: option.splits)
  with assms(4) show ?thesis by (rule submit_keeps_store)
next
  case (Recruiter_report ev)
  with assms(1) show ?thesis by (simp add: handle_request_def)
qed

lemma serve_keeps_empty:
  assumes "serve store reqs = Some store'"
      and "\<forall>req\<in>set reqs. \<not> start_succeeds req"
      and "role_title store = None" and "responses store = None"
  shows "store' = store"
  using assms
proof (induction reqs arbitrary: store)
  case Nil
  then show ?case by simp
next
  case (Cons req reqs)
  from Cons.prems(1) obtain mid where h: "handle_request store req = Some mid"
    and s: "serve mid reqs = Some store'"
    by (auto split: option.splits)
  from Cons.prems(2) have "\<not> start_succeeds req" by simp
  from handle_request_keeps_empty [OF h this Cons.prems(3,4)] have "mid = store" .
  with s Cons.IH [of store] Cons.prems show ?case by simp
qed

text \<open>
  C10. After any sequence of requests, from the initial store, that contains no successful
  \<open>start_interview\<close>, the report is the page with the role title \<open>N/A\<close> and the fixed
  text for an interview without responses, and no evaluation is requested. The report raises
  nothing: its result is a page in every case.
\<close>

theorem get_report_before_start:
  assumes "serve interview_data_init reqs = Some store"
      and "\<forall>req\<in>set reqs. \<not> start_succeeds req"
  shows "get_recruiter_report evaluation_result store
         = (Recruiter_view ''N/A'' no_responses, [])"
proof -
  have "store = interview_data_init"
    by (rule serve_keeps_empty [OF assms]) (simp_all add: interview_data_init_def)
  then show ?thesis
    by (simp add: interview_data_init_def get_recruiter_report_def evaluate_transcription_def)
qed

text \<open>
  The theorem after a failed start and a submission.
\<close>

theorem get_report_before_start_witness:
  "serve interview_data_init
     [Start_interview
        \<lparr>intro_result = Inl (Exception ''quota exceeded''), questions_result = Inr ''1. Why?'',
         intro_raises_first = True, tts_result = Inr []\<rparr>
        ''Backend Engineer'' ''Build APIs'',
      Submit_response
        \<lparr>open_result = None, write_result = None, exists_result = True, remove_result = None\<rparr>
        \<lparr>upload_result = Inr \<lparr>name = ''files/v1'', state_name = ''ACTIVE''\<rparr>,
         get_file_result = scripted [] (Inl (Exception ''404 not found'')),
         content_result = Inr ''I build APIs.'', delete_result = None\<rparr>
        \<lparr>filename = ''a.webm'', read_result = Inr [26, 69, 223, 163]\<rparr>]
   = Some interview_data_init
   \<and> get_recruiter_report (Inr ''**1. Overall Summary:**'') interview_data_init
     = (Recruiter_view ''N/A'' no_responses, [])"
proof -
  let ?reqs = "[Start_interview
        \<lparr>intro_result = Inl (Exception ''quota exceeded''), questions_result = Inr ''1. Why?'',
         intro_raises_first = True, tts_result = Inr []\<rparr>
        ''Backend Engineer'' ''Build APIs'',
      Submit_response
        \<lparr>open_result = None, write_result = None, exists_result = True, remove_result = None\<rparr>
        \<lparr>upload_result = Inr \<lparr>name = ''files/v1'', state_name = ''ACTIVE''\<rparr>,
         get_file_result = scripted [] (Inl (Exception ''404 not found'')),
         content_result = Inr ''I build APIs.'', delete_result = None\<rparr>
        \<lparr>filename = ''a.webm'', read_result = Inr [26, 69, 223, 163]\<rparr>]"
  have run: "serve interview_data_init ?reqs = Some interview_data_init"
    by (simp add: handle_request_def start_interview_def generate_interview_content_def
                  gather_def submit_response_def Let_def save_and_transcribe_def finally_remove_def
                  append_response_def interview_data_init_def transcribe_video_file_def
                  poll_loop.simps try_rest_def finally_delete_def)
  have none: "\<forall>req\<in>set ?reqs. \<not> start_succeeds req"
    by (simp add: start_succeeds_def generate_interview_content_def gather_def Let_def)
  from get_report_before_start [OF run none, of "Inr ''**1. Overall Summary:**''"] run
  show ?thesis by simp
qed

end
